theory Spec2Isabelle
  imports Main "HOL-Library.Sublist"
begin

section \<open>hydra-cli: command dispatch and registry queries\<close>

text \<open>
  A shallow embedding of \<^verbatim>\<open>hydra-cli.js\<close>. The program is a chain of callbacks over
  external collaborators (the redis client, the hydra library, the config loader, the
  message builder, the clock). Each collaborator is a field of the record \<open>env\<close> that gives
  the answer it delivers to the callback; each method of \<open>class Program\<close> becomes a function
  that returns the list of effects it issues, in program order. The fields of \<open>this\<close>
  are the record \<open>program\<close>, passed explicitly.
\<close>

subsection \<open>JavaScript values\<close>

text \<open>
  A JavaScript object is the list of its own enumerable properties in the order in which
  \<^verbatim>\<open>Object.keys\<close> and \<^verbatim>\<open>JSON.stringify\<close> visit them. Numbers are never computed with in the
  program, they are carried as integers.
\<close>

datatype jsval =
    JUndefined
  | JNull
  | JBool bool
  | JNum int
  | JStr string
  | JArr "jsval list"
  | JObj "(string \<times> jsval) list"

text \<open>
  An error value. \<open>TypeError e\<close> is the exception the language raises when the expression
  \<open>e\<close> is evaluated on a value that does not support it (property access on
  \<^verbatim>\<open>null\<close>/\<^verbatim>\<open>undefined\<close>, a call of a non-function, a property write on a primitive in strict
  mode); \<open>StoreError m\<close> is an error object handed over by the redis client; \<open>LibError m\<close> one
  from the config loader or the hydra library. The string of the last two is the
  \<^verbatim>\<open>message\<close> property.
\<close>

datatype js_error = TypeError string | StoreError string | LibError string

fun message :: "js_error \<Rightarrow> string" where
  "message (TypeError e) = e"
| "message (StoreError m) = m"
| "message (LibError m) = m"

text \<open>\<^verbatim>\<open>!v\<close> is true exactly on the falsy values.\<close>

fun truthy :: "jsval \<Rightarrow> bool" where
  "truthy JUndefined = False"
| "truthy JNull = False"
| "truthy (JBool b) = b"
| "truthy (JNum n) = (n \<noteq> 0)"
| "truthy (JStr s) = (s \<noteq> [])"
| "truthy (JArr xs) = True"
| "truthy (JObj kvs) = True"

text \<open>
  Reading property \<open>k\<close> of a value, for the property names the program reads (none of
  them is a built-in property of a string, a number or an array): \<^verbatim>\<open>null\<close> and
  \<^verbatim>\<open>undefined\<close> raise, an object gives its own property, everything else gives
  \<^verbatim>\<open>undefined\<close>. The first argument names the expression, for the error.
\<close>

fun get_prop :: "string \<Rightarrow> jsval \<Rightarrow> string \<Rightarrow> js_error + jsval" where
  "get_prop e JUndefined k = Inl (TypeError e)"
| "get_prop e JNull k = Inl (TypeError e)"
| "get_prop e (JObj kvs) k = Inr (case map_of kvs k of None \<Rightarrow> JUndefined | Some v \<Rightarrow> v)"
| "get_prop e v k = Inr JUndefined"

text \<open>
  Own property order: the keys that are array indices (canonical decimal numerals below
  \<open>2^32 - 1\<close>) come first, in ascending numeric order, then the other keys in the order
  of their creation.
\<close>

definition digit_val :: "char \<Rightarrow> nat" where
  "digit_val c = of_char c - 48"

definition is_digit :: "char \<Rightarrow> bool" where
  "is_digit c = (48 \<le> (of_char c :: nat) \<and> (of_char c :: nat) \<le> 57)"

definition decimal :: "string \<Rightarrow> nat" where
  "decimal s = foldl (\<lambda>n c. 10 * n + digit_val c) 0 s"

definition is_array_index :: "string \<Rightarrow> bool" where
  "is_array_index k =
     (k \<noteq> [] \<and> list_all is_digit k \<and> (hd k = CHR ''0'' \<longrightarrow> length k = 1)
      \<and> length k \<le> 10 \<and> decimal k < 4294967295)"

fun insert_index :: "string \<Rightarrow> jsval \<Rightarrow> (string \<times> jsval) list \<Rightarrow> (string \<times> jsval) list" where
  "insert_index k v [] = [(k, v)]"
| "insert_index k v ((k', v') # kvs) =
     (if is_array_index k' \<and> decimal k' < decimal k then (k', v') # insert_index k v kvs
      else (k, v) # (k', v') # kvs)"

fun replace_prop :: "string \<Rightarrow> jsval \<Rightarrow> (string \<times> jsval) list \<Rightarrow> (string \<times> jsval) list" where
  "replace_prop k v [] = []"
| "replace_prop k v ((k', v') # kvs) =
     (if k' = k then (k, v) # kvs else (k', v') # replace_prop k v kvs)"

text \<open>
  \<^verbatim>\<open>obj[k] = v\<close> on a plain object: an existing property keeps its place, a new one is
  created at the place its key has in the property order. The key \<^verbatim>\<open>__proto__\<close> is the
  prototype accessor: assigning to it creates no own property.
\<close>

definition obj_set :: "(string \<times> jsval) list \<Rightarrow> string \<Rightarrow> jsval \<Rightarrow> (string \<times> jsval) list" where
  "obj_set kvs k v =
     (if k = ''__proto__'' then kvs
      else if k \<in> set (map fst kvs) then replace_prop k v kvs
      else if is_array_index k then insert_index k v kvs
      else kvs @ [(k, v)])"

text \<open>
  \<^verbatim>\<open>item.elapsed = v\<close> in strict mode: on an object the property is set; on an array the
  write creates a non-index property, which \<^verbatim>\<open>JSON.stringify\<close> does not print; on
  \<^verbatim>\<open>null\<close>, \<^verbatim>\<open>undefined\<close> and the primitives it raises.
\<close>

fun set_prop :: "string \<Rightarrow> jsval \<Rightarrow> string \<Rightarrow> jsval \<Rightarrow> js_error + jsval" where
  "set_prop e (JObj kvs) k v = Inr (JObj (obj_set kvs k v))"
| "set_prop e (JArr xs) k v = Inr (JArr xs)"
| "set_prop e x k v = Inl (TypeError e)"

text \<open>\<^verbatim>\<open>`${x}`\<close> for a string that may be \<^verbatim>\<open>undefined\<close>.\<close>

fun js_str :: "string option \<Rightarrow> string" where
  "js_str None = ''undefined''"
| "js_str (Some s) = s"

text \<open>\<^verbatim>\<open>args[i]\<close>: \<^verbatim>\<open>undefined\<close> beyond the end.\<close>

definition arg :: "string list \<Rightarrow> nat \<Rightarrow> string option" where
  "arg args i = (if i < length args then Some (args ! i) else None)"

text \<open>\<^verbatim>\<open>String.prototype.indexOf\<close>: the first position at which \<open>f\<close> occurs in \<open>s\<close>, or \<open>-1\<close>.\<close>

fun starts_with :: "string \<Rightarrow> string \<Rightarrow> bool" where
  "starts_with s [] = True"
| "starts_with [] (c # f) = False"
| "starts_with (x # s) (c # f) = (x = c \<and> starts_with s f)"

fun indexOf :: "string \<Rightarrow> string \<Rightarrow> int" where
  "indexOf [] f = (if starts_with [] f then 0 else - 1)"
| "indexOf (x # s) f =
     (if starts_with (x # s) f then 0
      else (let r = indexOf s f in if r < 0 then - 1 else r + 1))"

text \<open>
  \<^verbatim>\<open>v.indexOf(f)\<close> for a string \<open>f\<close>: on a string the position of the substring, on an
  array the position of the first element strictly equal to \<open>f\<close>; \<^verbatim>\<open>null\<close> and
  \<^verbatim>\<open>undefined\<close> have no properties and the other values no \<^verbatim>\<open>indexOf\<close> method.
\<close>

fun array_indexOf :: "jsval list \<Rightarrow> string \<Rightarrow> int" where
  "array_indexOf [] f = - 1"
| "array_indexOf (x # xs) f =
     (if x = JStr f then 0
      else (let r = array_indexOf xs f in if r < 0 then - 1 else r + 1))"

fun js_indexOf :: "string \<Rightarrow> jsval \<Rightarrow> string option \<Rightarrow> js_error + int" where
  "js_indexOf e (JStr s) f = Inr (indexOf s (js_str f))"
| "js_indexOf e (JArr xs) None = Inr (- 1)"
| "js_indexOf e (JArr xs) (Some f) = Inr (array_indexOf xs f)"
| "js_indexOf e v f = Inl (TypeError e)"

text \<open>\<^verbatim>\<open>s.split(':')\<close>: the segments between the separators, at least one.\<close>

fun split :: "char \<Rightarrow> string \<Rightarrow> string list" where
  "split c [] = [[]]"
| "split c (x # s) =
     (if x = c then [] # split c s
      else (case split c s of [] \<Rightarrow> [[x]] | seg # segs \<Rightarrow> (x # seg) # segs))"

text \<open>
  What \<^verbatim>\<open>JSON.stringify\<close> prints of a value: inside an array \<^verbatim>\<open>undefined\<close> is printed
  as \<^verbatim>\<open>null\<close>, inside an object a property whose value is \<^verbatim>\<open>undefined\<close> is left out.
\<close>

primrec printed :: "jsval \<Rightarrow> jsval" where
  "printed JUndefined = JUndefined"
| "printed JNull = JNull"
| "printed (JBool b) = JBool b"
| "printed (JNum n) = JNum n"
| "printed (JStr s) = JStr s"
| "printed (JArr xs) =
     JArr (map (\<lambda>v. if v = JUndefined then JNull else v) (map printed xs))"
| "printed (JObj kvs) =
     JObj (filter (\<lambda>(k, v). v \<noteq> JUndefined) (map (map_prod id printed) kvs))"

subsection \<open>Effects, collaborators and program state\<close>

text \<open>
  The effects of a run, in the order the program issues them. \<open>Exec\<close> is one
  \<^verbatim>\<open>multi()\<close> batch with its \<^verbatim>\<open>lrange key start stop\<close> commands; \<open>ExitApp\<close> is a call of
  \<^verbatim>\<open>exitApp()\<close>, which arms the 250 ms timer whose callback shuts hydra down, quits the
  stored redis client, prints a blank line and exits the process; \<open>Unhandled e\<close> is a
  promise rejected with \<open>e\<close> that no handler is attached to: the rejection is reported
  and nothing continues from that promise; \<open>Uncaught e\<close> is an exception that leaves a
  callback or an \<^verbatim>\<open>error\<close> event that nothing listens to: the process prints \<open>e\<close> and ends.
  A reply is taken to arrive before a timer armed earlier fires.
\<close>

datatype event =
    Log string
  | LogErr js_error
  | LogLabelled string js_error
  | LogJSON jsval
  | HydraInit jsval
  | CreateClient jsval jsval
  | Select jsval
  | Keys string
  | SMembers string
  | HGetAll string
  | HDel string "string option"
  | Exec "(string \<times> int \<times> int) list"
  | ConfigInit string
  | SendMessage jsval
  | MakeAPIRequest jsval
  | Question string
  | WriteFile "string option" jsval
  | ExitApp
  | ProcessExit
  | Unhandled js_error
  | Uncaught js_error

text \<open>The result of \<^verbatim>\<open>UMFMessage.parseRoute\<close>, as far as the program reads it.\<close>

record route =
  error :: "string option"
  httpMethod :: "string option"

text \<open>
  The collaborators. Each field is the answer the collaborator gives: for a redis
  command the \<^verbatim>\<open>(err, result)\<close> pair its callback receives (\<open>Inl\<close> or \<open>Some\<close> the error),
  for a promise its rejection or its value. \<open>connectReply env port host\<close> is the fate of
  the connection of the client: \<open>None\<close> when the store accepts it, \<open>Some e\<close> when it is
  refused; the client then answers no command and emits the event \<^verbatim>\<open>error\<close> with \<open>e\<close>,
  to which the program attaches no listener. \<open>hgetallReply\<close> is \<open>None\<close> for the
  \<^verbatim>\<open>null\<close> the client delivers when the hash does not exist, else the reply object as
  its property list. \<open>elapsedSince env u\<close> is
  \<^verbatim>\<open>parseInt(moment.duration(now - moment(u)) / 1000)\<close> at the time of the run.
\<close>

record env =
  home :: "string option"
  version :: string
  readFile :: "string \<Rightarrow> string option"
  jsonParse :: "string \<Rightarrow> jsval option"
  hydraInit :: "jsval \<Rightarrow> js_error option"
  connectReply :: "jsval \<Rightarrow> jsval \<Rightarrow> js_error option"
  selectReply :: "jsval \<Rightarrow> js_error option"
  keysReply :: "string \<Rightarrow> js_error + string list"
  smembersReply :: "string \<Rightarrow> js_error + string list"
  hgetallReply :: "string \<Rightarrow> js_error + (string \<times> string) list option"
  hdelReply :: "string \<Rightarrow> string option \<Rightarrow> js_error option"
  execReply :: "(string \<times> int \<times> int) list \<Rightarrow> js_error + (js_error + string list) list"
  elapsedSince :: "jsval \<Rightarrow> jsval"
  parseRoute :: "string option \<Rightarrow> js_error + route"
  createMessage :: "jsval \<Rightarrow> jsval"
  configInit :: "string \<Rightarrow> js_error + jsval"
  makeAPIRequest :: "jsval \<Rightarrow> js_error + jsval"
  answer :: "string \<Rightarrow> string"
  writeFileReply :: "js_error option"

text \<open>The fields of \<^verbatim>\<open>class Program\<close>; \<open>redisdb\<close> holds the client by its port and host.\<close>

record program =
  configData :: jsval
  hydraConfig :: "string option"
  redisdb :: "(jsval \<times> jsval) option"

definition constructor :: program where
  "constructor = \<lparr>configData = JNull, hydraConfig = None, redisdb = None\<rparr>"

definition redisPreKey :: string where
  "redisPreKey = ''hydra:service''"

text \<open>
  \<^verbatim>\<open>Utils.safeJSONParse\<close> of the package fwsp-jsutils: \<^verbatim>\<open>JSON.parse\<close> in a
  \<^verbatim>\<open>try\<close>/\<^verbatim>\<open>catch\<close> that gives \<^verbatim>\<open>undefined\<close> when the text does not parse; \<open>displayJSON\<close>
  below relies on that with its test \<^verbatim>\<open>!js\<close>.
\<close>

definition safeJSONParse :: "env \<Rightarrow> string \<Rightarrow> jsval" where
  "safeJSONParse env str = (case jsonParse env str of None \<Rightarrow> JUndefined | Some data \<Rightarrow> data)"

subsection \<open>Methods\<close>

definition displayHelp :: "env \<Rightarrow> event list" where
  "displayHelp env =
     [Log (''hydra-cli version '' @ version env),
      Log ''Usage: hydra-cli command [parameters]'',
      Log ''See docs at: https://github.com/flywheelsports/hydra-cli'',
      Log [],
      Log ''A command line interface for Hydra services'',
      Log [],
      Log ''Commands:'',
      Log ''  help                        - this help list'',
      Log ''  config                      - configure connection to redis'',
      Log ''  config list                 - display current configuration'',
      Log ''  message create              - create a message object'',
      Log ''  message send message.json   - send a message'',
      Log ''  nodes                       - same as nodes lists'',
      Log ''  nodes list [serviceName]    - display service instance nodes'',
      Log ''  nodes remove id             - remove a service from nodes list'',
      Log ''  rest path [payload.json]    - make an HTTP RESTful call to a service'',
      Log ''  routes [serviceName]        - display service API routes'',
      Log ''  healthlog serviceName       - display service health log'',
      Log []]"

text \<open>
  The fate of the promise that \<open>redisConnect\<close> returns: resolved (with the program as the
  callback left it), rejected, or never settled.
\<close>

datatype promise = Resolved program | Rejected js_error | Pending

text \<open>
  \<open>redisConnect\<close>: the promise's executor reads the configuration properties (a throw in
  the executor rejects the promise), creates the client and issues \<^verbatim>\<open>select\<close>. Only the
  callback of \<^verbatim>\<open>select\<close> stores the client and resolves; it receives \<open>err\<close> and does
  not read it. When the connection is refused the callback never runs: nothing is stored,
  the promise stays pending, and the \<^verbatim>\<open>error\<close> event of the client ends the process.
\<close>

definition redisConnect :: "env \<Rightarrow> program \<Rightarrow> promise \<times> event list" where
  "redisConnect env p =
     (case get_prop ''this.configData.redisPort'' (configData p) ''redisPort'' of
        Inl e \<Rightarrow> (Rejected e, [])
      | Inr port \<Rightarrow>
          (case get_prop ''this.configData.redisUrl'' (configData p) ''redisUrl'' of
             Inl e \<Rightarrow> (Rejected e, [])
           | Inr url \<Rightarrow>
               (case get_prop ''this.configData.redisDb'' (configData p) ''redisDb'' of
                  Inl e \<Rightarrow> (Rejected e, [CreateClient port url])
                | Inr db \<Rightarrow>
                    (case connectReply env port url of
                       Some e \<Rightarrow> (Pending, [CreateClient port url, Select db, Uncaught e])
                     | None \<Rightarrow>
                         (let err = selectReply env db
                          in (Resolved (p\<lparr>redisdb := Some (port, url)\<rparr>),
                              [CreateClient port url, Select db]))))))"

definition exitApp :: "event list" where
  "exitApp = [ExitApp]"

definition getKeys :: "env \<Rightarrow> program \<Rightarrow> string \<Rightarrow> (js_error + string list) \<times> event list" where
  "getKeys env p pattern =
     (case redisdb p of
        None \<Rightarrow> (Inl (TypeError ''this.redisdb.keys''), [])
      | Some client \<Rightarrow>
          (case keysReply env pattern of
             Inl err \<Rightarrow> (Inr [], [Keys pattern])
           | Inr result \<Rightarrow> (Inr result, [Keys pattern])))"

definition routesKey :: "string option \<Rightarrow> string" where
  "routesKey serviceName = redisPreKey @ '':'' @ js_str serviceName @ '':service:routes''"

definition getRoutes :: "env \<Rightarrow> program \<Rightarrow> string option \<Rightarrow> (js_error + string list) \<times> event list" where
  "getRoutes env p serviceName =
     (case redisdb p of
        None \<Rightarrow> (Inl (TypeError ''this.redisdb.smembers''), [])
      | Some client \<Rightarrow>
          (case smembersReply env (routesKey serviceName) of
             Inl err \<Rightarrow> (Inl err, [SMembers (routesKey serviceName)])
           | Inr result \<Rightarrow> (Inr result, [SMembers (routesKey serviceName)])))"

definition displayJSON :: "env \<Rightarrow> jsval \<Rightarrow> event list" where
  "displayJSON env json =
     (case json of
        JStr s \<Rightarrow> (let js = safeJSONParse env s in if \<not> truthy js then [Log s] else [LogJSON js])
      | _ \<Rightarrow> [LogJSON json])"

subsection \<open>Command handlers\<close>

definition handleConfigCommand :: "env \<Rightarrow> program \<Rightarrow> string list \<Rightarrow> event list" where
  "handleConfigCommand env p args =
     (if length args = 1 \<and> arg args 0 = Some ''list'' then [LogJSON (configData p), ProcessExit]
      else
        [Question ''redisUrl: '', Question ''redisPort: '', Question ''redisDb: ''] @
        (let data = (if truthy (configData p) then configData p else JObj [])
         in case set_prop ''data.redisUrl'' data ''redisUrl'' (JStr (answer env ''redisUrl: '')) of
              Inl e \<Rightarrow> [Uncaught e]
            | Inr d1 \<Rightarrow>
                (case set_prop ''data.redisPort'' d1 ''redisPort'' (JStr (answer env ''redisPort: '')) of
                   Inl e \<Rightarrow> [Uncaught e]
                 | Inr d2 \<Rightarrow>
                     (case set_prop ''data.redisDb'' d2 ''redisDb'' (JStr (answer env ''redisDb: '')) of
                        Inl e \<Rightarrow> [Uncaught e]
                      | Inr d3 \<Rightarrow>
                          WriteFile (hydraConfig p) d3 #
                          (case writeFileReply env of None \<Rightarrow> [] | Some err \<Rightarrow> [LogErr err]) @
                          [ProcessExit]))))"

text \<open>
  \<open>handleHealthLog\<close>. \<^verbatim>\<open>result[0]\<close> is the reply of the first \<^verbatim>\<open>lrange\<close> of the batch;
  \<^verbatim>\<open>result.forEach\<close> raises when there is none or when it is an error object.
\<close>

definition handleHealthLog :: "env \<Rightarrow> program \<Rightarrow> string list \<Rightarrow> event list" where
  "handleHealthLog env p args =
     (case redisConnect env p of
        (Rejected e, evs) \<Rightarrow> evs @ [Unhandled e]
      | (Pending, evs) \<Rightarrow> evs
      | (Resolved p', evs) \<Rightarrow>
          evs @
          (case getKeys env p' (''*:'' @ js_str (arg args 0) @ '':*:health:log'') of
             (Inl e, evs') \<Rightarrow> evs' @ [Unhandled e]
           | (Inr instances, evs') \<Rightarrow>
               evs' @
               (if length instances = 0 then [Log ''[]''] @ exitApp
                else
                  (let trans = map (\<lambda>instance. (instance, 0, 100)) instances
                   in Exec trans #
                      (case execReply env trans of
                         Inl err \<Rightarrow> [LogErr err] @ exitApp
                       | Inr [] \<Rightarrow> [Uncaught (TypeError ''result.forEach'')]
                       | Inr (Inl e # rest) \<Rightarrow> [Uncaught (TypeError ''result.forEach'')]
                       | Inr (Inr entries # rest) \<Rightarrow>
                           [LogJSON (JArr (map (safeJSONParse env) entries))] @ exitApp)))))"

definition handleMessageCreate :: "env \<Rightarrow> program \<Rightarrow> string list \<Rightarrow> event list" where
  "handleMessageCreate env p args =
     (let msg = createMessage env
                  (JObj [(''to'', JStr ''{serviceName here}:/''), (''from'', JStr ''hydra-cli:/''),
                         (''body'', JObj [])])
      in displayJSON env msg @ exitApp)"

definition handleMessageSend :: "env \<Rightarrow> program \<Rightarrow> string list \<Rightarrow> event list" where
  "handleMessageSend env p args =
     (if length args \<noteq> 2 then [Log ''Invalid number of parameters''] @ exitApp
      else
        ConfigInit (args ! 1) #
        (case configInit env (args ! 1) of
           Inr obj \<Rightarrow> [SendMessage obj] @ exitApp
         | Inl err \<Rightarrow> [Log (message err)] @ exitApp))"

text \<open>
  \<open>handleNodesList\<close>. The test of the \<^verbatim>\<open>forEach\<close> body, then the body on every field of
  the reply, in the order of \<^verbatim>\<open>Object.keys\<close>. An exception ends the loop.
\<close>

definition node_selected :: "string list \<Rightarrow> jsval \<Rightarrow> js_error + bool" where
  "node_selected args item =
     (if length args = 0 \<or> length args = 1 then Inr True
      else if length args = 2 then
        (case get_prop ''item.serviceName'' item ''serviceName'' of
           Inl e \<Rightarrow> Inl e
         | Inr serviceName \<Rightarrow>
             (case js_indexOf ''item.serviceName.indexOf'' serviceName (arg args 1) of
                Inl e \<Rightarrow> Inl e
              | Inr i \<Rightarrow> Inr (i > - 1)))
      else Inr False)"

definition add_elapsed :: "env \<Rightarrow> jsval \<Rightarrow> js_error + jsval" where
  "add_elapsed env item =
     (case get_prop ''item.updatedOn'' item ''updatedOn'' of
        Inl e \<Rightarrow> Inl e
      | Inr updatedOn \<Rightarrow> set_prop ''item.elapsed'' item ''elapsed'' (elapsedSince env updatedOn))"

fun nodes_loop :: "env \<Rightarrow> string list \<Rightarrow> (string \<times> string) list \<Rightarrow> jsval list \<Rightarrow> js_error + jsval list" where
  "nodes_loop env args [] nodes = Inr nodes"
| "nodes_loop env args ((entry, val) # data) nodes =
     (let item = safeJSONParse env val
      in case node_selected args item of
           Inl e \<Rightarrow> Inl e
         | Inr False \<Rightarrow> nodes_loop env args data nodes
         | Inr True \<Rightarrow>
             (case add_elapsed env item of
                Inl e \<Rightarrow> Inl e
              | Inr item' \<Rightarrow> nodes_loop env args data (nodes @ [item'])))"

definition handleNodesList :: "env \<Rightarrow> program \<Rightarrow> string list \<Rightarrow> event list" where
  "handleNodesList env p args =
     (case redisConnect env p of
        (Rejected e, evs) \<Rightarrow> evs @ [Unhandled e]
      | (Pending, evs) \<Rightarrow> evs
      | (Resolved p', evs) \<Rightarrow>
          evs @ [HGetAll (redisPreKey @ '':nodes'')] @
          (case hgetallReply env (redisPreKey @ '':nodes'') of
             Inl err \<Rightarrow> [LogErr err] @ exitApp
           | Inr None \<Rightarrow> exitApp
           | Inr (Some data) \<Rightarrow>
               (case nodes_loop env args data [] of
                  Inl e \<Rightarrow> [Uncaught e]
                | Inr nodes \<Rightarrow> [LogJSON (JArr nodes)] @ exitApp)))"

text \<open>
  \<open>handleNodesRemove\<close>. The arity branch prints and calls \<^verbatim>\<open>exitApp()\<close>; it has no
  \<^verbatim>\<open>return\<close>, so control continues with \<^verbatim>\<open>this.redisConnect()\<close>.
\<close>

definition handleNodesRemove :: "env \<Rightarrow> program \<Rightarrow> string list \<Rightarrow> event list" where
  "handleNodesRemove env p args =
     (if length args \<noteq> 2 then [Log ''Missing parameter id''] @ exitApp else []) @
     (case redisConnect env p of
        (Rejected e, evs) \<Rightarrow> evs @ [Unhandled e]
      | (Pending, evs) \<Rightarrow> evs
      | (Resolved p', evs) \<Rightarrow>
          evs @ [HDel (redisPreKey @ '':nodes'') (arg args 1)] @
          (case hdelReply env (redisPreKey @ '':nodes'') (arg args 1) of
             Some err \<Rightarrow> [LogErr err]
           | None \<Rightarrow> [Log (''nodes entry '' @ js_str (arg args 1) @ '' removed'')]) @
          exitApp)"

definition is_set :: "string option \<Rightarrow> bool" where
  "is_set x = (case x of None \<Rightarrow> False | Some s \<Rightarrow> s \<noteq> [])"

definition rest_message :: "env \<Rightarrow> string list \<Rightarrow> jsval \<Rightarrow> jsval" where
  "rest_message env args body =
     createMessage env
       (JObj [(''to'', JStr (js_str (arg args 0))), (''from'', JStr ''hydra-cli:/''), (''body'', body)])"

definition rest_request :: "env \<Rightarrow> jsval \<Rightarrow> event list" where
  "rest_request env msg =
     MakeAPIRequest msg #
     (case makeAPIRequest env msg of
        Inr res \<Rightarrow> displayJSON env res @ exitApp
      | Inl err \<Rightarrow> [LogLabelled ''err'' err] @ exitApp)"

definition handleRest :: "env \<Rightarrow> program \<Rightarrow> string list \<Rightarrow> event list" where
  "handleRest env p args =
     (case parseRoute env (arg args 0) of
        Inl e \<Rightarrow> [Uncaught e]
      | Inr route \<Rightarrow>
          (if is_set (error route) then [Log (js_str (error route))] @ exitApp
           else
             (let method = (if is_set (httpMethod route) then js_str (httpMethod route) else ''get'')
              in if (method = ''get'' \<or> method = ''delete'') \<and> length args > 1 then
                   [Log (''Payload not allowed for HTTP '' @ [CHR 0x27] @ method @ [CHR 0x27] @ '' method'')]
                   @ exitApp
                 else if length args > 1 then
                   ConfigInit (args ! 1) #
                   (case configInit env (args ! 1) of
                      Inr obj \<Rightarrow>
                        rest_request env
                          (rest_message env args (if truthy obj then obj else JObj []))
                    | Inl err \<Rightarrow> [Log (''Unable to open '' @ args ! 1)] @ exitApp)
                 else rest_request env (rest_message env args (JObj [])))))"

text \<open>
  \<open>handleRoutes\<close>. The first \<^verbatim>\<open>forEach\<close> collects \<open>serviceNames\<close> and starts one
  \<open>getRoutes\<close> per name; \<^verbatim>\<open>segments[2]\<close> is \<^verbatim>\<open>undefined\<close> for a key of fewer than three
  segments, on which \<^verbatim>\<open>indexOf\<close> raises; the names collected before an exception have
  their reads issued already. \<^verbatim>\<open>Promise.all\<close> rejects with a rejection of its promises
  (the first in order here) or resolves with their values in order; the second
  \<^verbatim>\<open>forEach\<close> assigns them into \<open>resObj\<close>. An exception of the first \<^verbatim>\<open>forEach\<close> and a
  rejection of \<^verbatim>\<open>Promise.all\<close> reach the \<^verbatim>\<open>catch\<close>. After such an exception
  \<^verbatim>\<open>Promise.all\<close> is not reached: the reads started before it are joined by nothing, and
  those that fail are rejections with no handler.
\<close>

fun service_names :: "string list \<Rightarrow> string list \<Rightarrow> string option list \<Rightarrow> string option list \<times> js_error option" where
  "service_names args [] serviceNames = (serviceNames, None)"
| "service_names args (service # serviceRoutes) serviceNames =
     (let segments = split CHR '':'' service; serviceName = arg segments 2
      in if length args = 0 then service_names args serviceRoutes (serviceNames @ [serviceName])
         else if length args = 1 then
           (case serviceName of
              None \<Rightarrow> (serviceNames, Some (TypeError ''serviceName.indexOf''))
            | Some name \<Rightarrow>
                (if indexOf name (args ! 0) > - 1
                 then service_names args serviceRoutes (serviceNames @ [serviceName])
                 else service_names args serviceRoutes serviceNames))
         else service_names args serviceRoutes serviceNames)"

fun promise_all :: "(js_error + 'a) list \<Rightarrow> js_error + 'a list" where
  "promise_all [] = Inr []"
| "promise_all (Inl e # ps) = Inl e"
| "promise_all (Inr v # ps) = (case promise_all ps of Inl e \<Rightarrow> Inl e | Inr vs \<Rightarrow> Inr (v # vs))"

definition unhandled :: "(js_error + 'a) list \<Rightarrow> event list" where
  "unhandled promises =
     concat (map (\<lambda>promise. case promise of Inl err \<Rightarrow> [Unhandled err] | Inr v \<Rightarrow> []) promises)"

fun assign_routes :: "(string \<times> jsval) list \<Rightarrow> string option list \<Rightarrow> string list list \<Rightarrow> (string \<times> jsval) list" where
  "assign_routes resObj serviceNames [] = resObj"
| "assign_routes resObj [] (routesList # routes) =
     assign_routes (obj_set resObj ''undefined'' (JArr (map JStr routesList))) [] routes"
| "assign_routes resObj (name # serviceNames) (routesList # routes) =
     assign_routes (obj_set resObj (js_str name) (JArr (map JStr routesList))) serviceNames routes"

definition handleRoutes :: "env \<Rightarrow> program \<Rightarrow> string list \<Rightarrow> event list" where
  "handleRoutes env p args =
     (case redisConnect env p of
        (Rejected e, evs) \<Rightarrow> evs @ [Unhandled e]
      | (Pending, evs) \<Rightarrow> evs
      | (Resolved p', evs) \<Rightarrow>
          evs @
          (case getKeys env p' ''*:routes'' of
             (Inl e, evs') \<Rightarrow> evs' @ [LogErr e] @ exitApp
           | (Inr serviceRoutes, evs') \<Rightarrow>
               evs' @
               (case service_names args serviceRoutes [] of
                  (serviceNames, thrown) \<Rightarrow>
                    (let promises = map (getRoutes env p') serviceNames
                     in concat (map snd promises) @
                        (case thrown of
                           Some e \<Rightarrow> [LogErr e] @ exitApp @ unhandled (map fst promises)
                         | None \<Rightarrow>
                             (case promise_all (map fst promises) of
                                Inl err \<Rightarrow> [LogErr err] @ exitApp
                              | Inr routes \<Rightarrow>
                                  [LogJSON (JObj (assign_routes [] serviceNames routes))] @ exitApp))))))"

subsection \<open>Entry point\<close>

text \<open>
  The callback of \<^verbatim>\<open>fs.readFile\<close> in \<open>main\<close>, first part: when the file was read, the
  \<^verbatim>\<open>try\<close> block parses it, builds the hydra configuration from its three properties and
  calls \<^verbatim>\<open>hydra.init\<close>; any exception in the block resets \<open>configData\<close> to \<^verbatim>\<open>null\<close>.
\<close>

definition hydra_conf :: "jsval \<Rightarrow> jsval \<Rightarrow> jsval \<Rightarrow> jsval" where
  "hydra_conf url port db =
     JObj [(''serviceName'', JStr ''hydra-cli''), (''serviceDescription'', JStr ''Not a service''),
           (''serviceIP'', JStr []), (''servicePort'', JNum 0), (''serviceType'', JStr ''non''),
           (''redis'', JObj [(''url'', url), (''port'', port), (''db'', db)])]"

definition load_config :: "env \<Rightarrow> program \<Rightarrow> program \<times> event list" where
  "load_config env p =
     (case readFile env (js_str (hydraConfig p)) of
        None \<Rightarrow> (p, [])
      | Some data \<Rightarrow>
          (case jsonParse env data of
             None \<Rightarrow> (p\<lparr>configData := JNull\<rparr>, [])
           | Some cfg \<Rightarrow>
               (case get_prop ''this.configData.redisUrl'' cfg ''redisUrl'' of
                  Inl e \<Rightarrow> (p\<lparr>configData := JNull\<rparr>, [])
                | Inr url \<Rightarrow>
                    (case get_prop ''this.configData.redisPort'' cfg ''redisPort'' of
                       Inl e \<Rightarrow> (p\<lparr>configData := JNull\<rparr>, [])
                     | Inr port \<Rightarrow>
                         (case get_prop ''this.configData.redisDb'' cfg ''redisDb'' of
                            Inl e \<Rightarrow> (p\<lparr>configData := JNull\<rparr>, [])
                          | Inr db \<Rightarrow>
                              (case hydraInit env (hydra_conf url port db) of
                                 Some e \<Rightarrow> (p\<lparr>configData := JNull\<rparr>, [HydraInit (hydra_conf url port db)])
                               | None \<Rightarrow> (p\<lparr>configData := cfg\<rparr>, [HydraInit (hydra_conf url port db)])))))))"

text \<open>The \<^verbatim>\<open>switch\<close> on the command; \<open>args\<close> is \<^verbatim>\<open>process.argv.slice(3)\<close>.\<close>

definition dispatch :: "env \<Rightarrow> program \<Rightarrow> string \<Rightarrow> string list \<Rightarrow> event list" where
  "dispatch env p command args =
     (if command = ''config'' then handleConfigCommand env p args
      else if command = ''help'' then displayHelp env @ [ProcessExit]
      else if command = ''message'' then
        (if arg args 0 = Some ''create'' then handleMessageCreate env p args
         else if arg args 0 = Some ''send'' then handleMessageSend env p args
         else [Log (''Unknown message options: '' @ js_str (arg args 0))] @ exitApp)
      else if command = ''nodes'' then
        (if arg args 0 = Some ''list'' then handleNodesList env p args
         else if arg args 0 = Some ''remove'' then handleNodesRemove env p args
         else if length args = 0 then handleNodesList env p args
         else [Log (''Unknown nodes options: '' @ js_str (arg args 0))] @ exitApp)
      else if command = ''rest'' then handleRest env p args
      else if command = ''routes'' then handleRoutes env p args
      else if command = ''healthlog'' then handleHealthLog env p args
      else [Log (''Unknown command: '' @ command)] @ exitApp)"

text \<open>\<open>main\<close> on \<^verbatim>\<open>process.argv.slice(2)\<close>: the command and its arguments.\<close>

definition main :: "env \<Rightarrow> string list \<Rightarrow> event list" where
  "main env argv =
     (case argv of
        [] \<Rightarrow> displayHelp env @ [ProcessExit]
      | command # args \<Rightarrow>
          (let p = constructor\<lparr>hydraConfig := Some (js_str (home env) @ ''/.hydra-cli'')\<rparr>
           in case load_config env p of
                (p', evs) \<Rightarrow> evs @ dispatch env p' command args))"

subsection \<open>Notions used in the statements\<close>

text \<open>A configuration is loaded: \<open>configData\<close> is not \<^verbatim>\<open>null\<close> (nor \<^verbatim>\<open>undefined\<close>).\<close>

definition configured :: "program \<Rightarrow> bool" where
  "configured p = (configData p \<noteq> JNull \<and> configData p \<noteq> JUndefined)"

text \<open>The value a property read gives on a value that has properties.\<close>

definition prop_of :: "jsval \<Rightarrow> string \<Rightarrow> jsval" where
  "prop_of v k = (case get_prop [] v k of Inl e \<Rightarrow> JUndefined | Inr x \<Rightarrow> x)"

text \<open>
  The fate of the connection to the configured port and host: \<open>Some e\<close> when the store
  refuses it with the error \<open>e\<close>, \<open>None\<close> when it accepts it.
\<close>

definition refused :: "env \<Rightarrow> program \<Rightarrow> js_error option" where
  "refused env p =
     connectReply env (prop_of (configData p) ''redisPort'') (prop_of (configData p) ''redisUrl'')"

text \<open>The effects of a connect: the client is created and \<^verbatim>\<open>select\<close> is issued.\<close>

definition connected :: "program \<Rightarrow> event list" where
  "connected p =
     [CreateClient (prop_of (configData p) ''redisPort'') (prop_of (configData p) ''redisUrl''),
      Select (prop_of (configData p) ''redisDb'')]"

text \<open>A run reports an error of the store: it prints one, or ends on one.\<close>

fun store_error_event :: "event \<Rightarrow> bool" where
  "store_error_event (LogErr (StoreError m)) = True"
| "store_error_event (LogLabelled l (StoreError m)) = True"
| "store_error_event (Unhandled (StoreError m)) = True"
| "store_error_event (Uncaught (StoreError m)) = True"
| "store_error_event ev = False"

definition reports_store_error :: "event list \<Rightarrow> bool" where
  "reports_store_error evs = list_ex store_error_event evs"

text \<open>The commands that \<open>dispatch\<close> hands to a handler that connects to the store.\<close>

definition store_command :: "string \<Rightarrow> string list \<Rightarrow> bool" where
  "store_command command args =
     (command = ''routes'' \<or> command = ''healthlog'' \<or>
      (command = ''nodes'' \<and> (args = [] \<or> arg args 0 = Some ''list'' \<or> arg args 0 = Some ''remove'')))"

text \<open>A stored node: a JSON object whose \<^verbatim>\<open>serviceName\<close> is a string.\<close>

fun service_node :: "jsval \<Rightarrow> bool" where
  "service_node (JObj kvs) = (case map_of kvs ''serviceName'' of Some (JStr s) \<Rightarrow> True | _ \<Rightarrow> False)"
| "service_node v = False"

fun serviceName :: "jsval \<Rightarrow> string" where
  "serviceName (JObj kvs) = (case map_of kvs ''serviceName'' of Some (JStr s) \<Rightarrow> s | _ \<Rightarrow> [])"
| "serviceName v = []"

text \<open>A node with the derived field \<^verbatim>\<open>elapsed\<close>.\<close>

fun with_elapsed :: "env \<Rightarrow> jsval \<Rightarrow> jsval" where
  "with_elapsed env (JObj kvs) =
     JObj (obj_set kvs ''elapsed'' (elapsedSince env (prop_of (JObj kvs) ''updatedOn'')))"
| "with_elapsed env v = v"

text \<open>The names of a list in the order in which each is met first.\<close>

fun first_seen :: "string list \<Rightarrow> string list \<Rightarrow> string list" where
  "first_seen seen [] = seen"
| "first_seen seen (n # ns) = first_seen (if n \<in> set seen then seen else seen @ [n]) ns"

text \<open>The key of a property that \<open>obj_set\<close> appends: no array index, not \<^verbatim>\<open>__proto__\<close>.\<close>

definition plain_key :: "string \<Rightarrow> bool" where
  "plain_key k = (\<not> is_array_index k \<and> k \<noteq> ''__proto__'')"

text \<open>The expressions of \<open>handleNodesList\<close> that dereference \<open>item\<close>.\<close>

definition dereference_sites :: "string set" where
  "dereference_sites =
     {''item.updatedOn'', ''item.elapsed'', ''item.serviceName'', ''item.serviceName.indexOf''}"

subsection \<open>Example worlds\<close>

definition example_parse :: "string \<Rightarrow> jsval option" where
  \<open>example_parse =
     map_of [(''{"a":1}'', JObj [(''a'', JNum 1)]),
             (''{"serviceName":"auth-service"}'', JObj [(''serviceName'', JStr ''auth-service'')]),
             (''{"serviceName":"mail"}'', JObj [(''serviceName'', JStr ''mail'')])]\<close>

definition example_env :: env where
  "example_env =
     \<lparr>home = Some ''/home/user'', version = ''1.0.0'', readFile = (\<lambda>path. None),
      jsonParse = example_parse, hydraInit = (\<lambda>conf. None),
      connectReply = (\<lambda>port host. None), selectReply = (\<lambda>db. None),
      keysReply = (\<lambda>pattern. Inr []), smembersReply = (\<lambda>key. Inr []),
      hgetallReply = (\<lambda>key. Inr None), hdelReply = (\<lambda>key field. None),
      execReply = (\<lambda>trans. Inr []), elapsedSince = (\<lambda>updatedOn. JNum 5),
      parseRoute = (\<lambda>r. Inr \<lparr>error = None, httpMethod = None\<rparr>),
      createMessage = (\<lambda>msg. msg), configInit = (\<lambda>file. Inr (JObj [])),
      makeAPIRequest = (\<lambda>msg. Inr JNull), answer = (\<lambda>q. []), writeFileReply = None\<rparr>"

definition example_program :: program where
  "example_program =
     \<lparr>configData = JObj [(''redisUrl'', JStr ''127.0.0.1''), (''redisPort'', JStr ''6379''),
                         (''redisDb'', JStr ''0'')],
      hydraConfig = Some ''/home/user/.hydra-cli'', redisdb = None\<rparr>"

subsection \<open>Facts about the string and object operations\<close>

lemma starts_with_prefix: "starts_with s f \<longleftrightarrow> prefix f s"
  by (induction s f rule: starts_with.induct) auto

lemma indexOf_ge_minus1: "- 1 \<le> indexOf s f"
  by (induction s) (auto simp: Let_def)

lemma indexOf_sublist: "indexOf s f > - 1 \<longleftrightarrow> sublist f s"
proof (induction s)
  case Nil
  then show ?case by (cases f) auto
next
  case (Cons x s)
  have "- 1 \<le> indexOf s f" by (rule indexOf_ge_minus1)
  then have "(\<not> indexOf s f < 0) \<longleftrightarrow> indexOf s f > - 1" by arith
  with Cons show ?case
    by (auto simp: Let_def starts_with_prefix sublist_Cons_right)
qed

lemma redisConnect_configured:
  assumes "configured p"
  shows "redisConnect env p =
           (case refused env p of
              Some e \<Rightarrow> (Pending, connected p @ [Uncaught e])
            | None \<Rightarrow>
                (Resolved (p\<lparr>redisdb := Some (prop_of (configData p) ''redisPort'',
                                                 prop_of (configData p) ''redisUrl'')\<rparr>),
                 connected p))"
  using assms
  by (cases "configData p")
     (simp_all add: configured_def refused_def redisConnect_def connected_def prop_of_def
        split: option.split)

lemma redisConnect_unconfigured:
  assumes "configData p = JNull"
  shows "redisConnect env p = (Rejected (TypeError ''this.configData.redisPort''), [])"
  using assms by (simp add: redisConnect_def)

subsection \<open>The registry client\<close>

text \<open>
  C9. When the wildcard key enumeration fails, \<open>getKeys\<close> gives the empty sequence and not
  the error: its result and its effects are the ones it has when the enumeration
  succeeds and finds no key, so a caller cannot tell the two apart.
\<close>

theorem getKeys_error_is_empty:
  assumes "redisdb p = Some client" and "keysReply env pattern = Inl err"
  shows "getKeys env p pattern = (Inr [], [Keys pattern]) \<and>
         getKeys env p pattern = getKeys (env\<lparr>keysReply := (\<lambda>pat. Inr [])\<rparr>) p pattern"
  using assms by (simp add: getKeys_def)

theorem getKeys_error_is_empty_witness:
  "getKeys (example_env\<lparr>keysReply := (\<lambda>pat. Inl (StoreError ''ERR unknown command''))\<rparr>)
           (example_program\<lparr>redisdb := Some (JStr ''6379'', JStr ''127.0.0.1'')\<rparr>) ''*:routes''
     = (Inr [], [Keys ''*:routes''])"
  using getKeys_error_is_empty
          [of "example_program\<lparr>redisdb := Some (JStr ''6379'', JStr ''127.0.0.1'')\<rparr>"
              "(JStr ''6379'', JStr ''127.0.0.1'')"
              "example_env\<lparr>keysReply := (\<lambda>pat. Inl (StoreError ''ERR unknown command''))\<rparr>"
              "''*:routes''" "StoreError ''ERR unknown command''"]
  by simp

text \<open>
  C1 (as amended). With a configuration loaded, the connect either resolves or fails fast.
  When the connection is refused, no client is stored and the promise is never settled;
  the raw error surfaces (as the \<^verbatim>\<open>error\<close> event of the client, which nothing listens to)
  and ends the process, and each handler stops after the connect, with no store
  operation. When the connection is accepted, \<open>redisConnect\<close> stores the client and
  resolves whatever error the \<^verbatim>\<open>select\<close> callback receives: an error of the database
  selection is neither surfaced nor does it stop the handler.
\<close>

theorem redisConnect_outcomes:
  assumes "configured p"
      and "port = prop_of (configData p) ''redisPort''"
      and "host = prop_of (configData p) ''redisUrl''"
  shows "(connectReply env port host = Some e \<longrightarrow>
            redisConnect env p = (Pending, connected p @ [Uncaught e]) \<and>
            handleHealthLog env p args = connected p @ [Uncaught e] \<and>
            handleNodesList env p args = connected p @ [Uncaught e] \<and>
            handleRoutes env p args = connected p @ [Uncaught e] \<and>
            handleNodesRemove env p args =
              (if length args \<noteq> 2 then [Log ''Missing parameter id'', ExitApp] else []) @
              connected p @ [Uncaught e]) \<and>
         (connectReply env port host = None \<longrightarrow>
            redisConnect (env\<lparr>selectReply := (\<lambda>db. Some err)\<rparr>) p =
              (Resolved (p\<lparr>redisdb := Some (port, host)\<rparr>), connected p))"
proof (intro conjI impI)
  assume "connectReply env port host = Some e"
  then have "refused env p = Some e"
    using assms by (simp add: refused_def)
  then have refused: "redisConnect env p = (Pending, connected p @ [Uncaught e])"
    using redisConnect_configured [OF assms(1), of env] by simp
  then show "redisConnect env p = (Pending, connected p @ [Uncaught e])" .
  show "handleHealthLog env p args = connected p @ [Uncaught e]"
    by (simp add: handleHealthLog_def refused)
  show "handleNodesList env p args = connected p @ [Uncaught e]"
    by (simp add: handleNodesList_def refused)
  show "handleRoutes env p args = connected p @ [Uncaught e]"
    by (simp add: handleRoutes_def refused)
  show "handleNodesRemove env p args =
          (if length args \<noteq> 2 then [Log ''Missing parameter id'', ExitApp] else []) @
          connected p @ [Uncaught e]"
    by (simp add: handleNodesRemove_def refused exitApp_def)
next
  assume "connectReply env port host = None"
  then have "refused (env\<lparr>selectReply := (\<lambda>db. Some err)\<rparr>) p = None"
    using assms by (simp add: refused_def)
  with redisConnect_configured [OF assms(1), of "env\<lparr>selectReply := (\<lambda>db. Some err)\<rparr>"] assms(2,3)
  show "redisConnect (env\<lparr>selectReply := (\<lambda>db. Some err)\<rparr>) p =
          (Resolved (p\<lparr>redisdb := Some (port, host)\<rparr>), connected p)"
    by simp
qed

theorem redisConnect_outcomes_witness:
  "handleNodesList (example_env\<lparr>connectReply := (\<lambda>port host. Some (StoreError ''connect ECONNREFUSED''))\<rparr>)
                   example_program [''list'']
     = [CreateClient (JStr ''6379'') (JStr ''127.0.0.1''), Select (JStr ''0''),
        Uncaught (StoreError ''connect ECONNREFUSED'')] \<and>
   redisConnect (example_env\<lparr>selectReply := (\<lambda>db. Some (StoreError ''ERR DB index is out of range''))\<rparr>)
                example_program
     = (Resolved (example_program\<lparr>redisdb := Some (JStr ''6379'', JStr ''127.0.0.1'')\<rparr>),
        [CreateClient (JStr ''6379'') (JStr ''127.0.0.1''), Select (JStr ''0'')])"
proof -
  let ?down = "example_env\<lparr>connectReply := (\<lambda>port host. Some (StoreError ''connect ECONNREFUSED''))\<rparr>"
  have loaded: "configured example_program"
    by (simp add: configured_def example_program_def)
  have port: "JStr ''6379'' = prop_of (configData example_program) ''redisPort''"
    and host: "JStr ''127.0.0.1'' = prop_of (configData example_program) ''redisUrl''"
    by (simp_all add: prop_of_def example_program_def)
  have effects: "connected example_program =
      [CreateClient (JStr ''6379'') (JStr ''127.0.0.1''), Select (JStr ''0'')]"
    by (simp add: connected_def prop_of_def example_program_def)
  have "connectReply ?down (JStr ''6379'') (JStr ''127.0.0.1'') = Some (StoreError ''connect ECONNREFUSED'')"
    by simp
  with redisConnect_outcomes
         [OF loaded port host, of ?down "StoreError ''connect ECONNREFUSED''" "[''list'']"
            "StoreError ''connect ECONNREFUSED''"]
  have down: "handleNodesList ?down example_program [''list''] =
      connected example_program @ [Uncaught (StoreError ''connect ECONNREFUSED'')]"
    by blast
  have "connectReply example_env (JStr ''6379'') (JStr ''127.0.0.1'') = None"
    by (simp add: example_env_def)
  with redisConnect_outcomes
         [OF loaded port host, of example_env "StoreError ''connect ECONNREFUSED''" "[''list'']"
            "StoreError ''ERR DB index is out of range''"]
  have up: "redisConnect (example_env\<lparr>selectReply := (\<lambda>db. Some (StoreError ''ERR DB index is out of range''))\<rparr>)
                         example_program
              = (Resolved (example_program\<lparr>redisdb := Some (JStr ''6379'', JStr ''127.0.0.1'')\<rparr>),
                 connected example_program)"
    by blast
  from down up effects show ?thesis by simp
qed

text \<open>
  C1, the claim as stated fails: the store accepts the connection and refuses the
  configured database index 99, yet the connect resolves with the client stored, and
  \<^verbatim>\<open>nodes remove a\<close> goes on to delete the field and to report success; the error of
  \<^verbatim>\<open>select\<close> is printed nowhere.
\<close>

theorem connect_invalid_db_counterexample:
  "selectReply (example_env\<lparr>selectReply := (\<lambda>db. Some (StoreError ''ERR DB index is out of range''))\<rparr>)
               (JStr ''99'')
     = Some (StoreError ''ERR DB index is out of range'') \<and>
   fst (redisConnect (example_env\<lparr>selectReply := (\<lambda>db. Some (StoreError ''ERR DB index is out of range''))\<rparr>)
                     (example_program\<lparr>configData :=
                        JObj [(''redisUrl'', JStr ''127.0.0.1''), (''redisPort'', JStr ''6379''),
                              (''redisDb'', JStr ''99'')]\<rparr>))
     = Resolved (example_program\<lparr>configData :=
                        JObj [(''redisUrl'', JStr ''127.0.0.1''), (''redisPort'', JStr ''6379''),
                              (''redisDb'', JStr ''99'')],
                     redisdb := Some (JStr ''6379'', JStr ''127.0.0.1'')\<rparr>) \<and>
   handleNodesRemove (example_env\<lparr>selectReply := (\<lambda>db. Some (StoreError ''ERR DB index is out of range''))\<rparr>)
                     (example_program\<lparr>configData :=
                        JObj [(''redisUrl'', JStr ''127.0.0.1''), (''redisPort'', JStr ''6379''),
                              (''redisDb'', JStr ''99'')]\<rparr>)
                     [''remove'', ''a'']
     = [CreateClient (JStr ''6379'') (JStr ''127.0.0.1''), Select (JStr ''99''),
        HDel ''hydra:service:nodes'' (Some ''a''), Log ''nodes entry a removed'', ExitApp]"
  by (simp add: handleNodesRemove_def redisConnect_def example_program_def example_env_def
        redisPreKey_def arg_def exitApp_def)

subsection \<open>Startup with no usable configuration\<close>

lemma load_config_unusable:
  assumes "readFile env (js_str (hydraConfig p)) = None \<or>
           (\<exists>data. readFile env (js_str (hydraConfig p)) = Some data \<and> jsonParse env data = None)"
      and "configData p = JNull"
  shows "load_config env p = (p, [])"
  using assms by (auto simp: load_config_def)

lemma handlers_unconfigured:
  assumes "configData p = JNull"
  shows "handleRoutes env p args = [Unhandled (TypeError ''this.configData.redisPort'')]"
    and "handleHealthLog env p args = [Unhandled (TypeError ''this.configData.redisPort'')]"
    and "handleNodesList env p args = [Unhandled (TypeError ''this.configData.redisPort'')]"
    and "handleNodesRemove env p args =
           (if length args \<noteq> 2 then [Log ''Missing parameter id'', ExitApp] else []) @
           [Unhandled (TypeError ''this.configData.redisPort'')]"
  by (simp_all add: handleRoutes_def handleHealthLog_def handleNodesList_def handleNodesRemove_def
        redisConnect_unconfigured [OF assms] exitApp_def)

lemma dispatch_store_command_unconfigured:
  assumes "store_command command args" and "configData p = JNull"
  shows "dispatch env p command args =
           (if command = ''nodes'' \<and> arg args 0 = Some ''remove'' \<and> length args \<noteq> 2
            then [Log ''Missing parameter id'', ExitApp] else []) @
           [Unhandled (TypeError ''this.configData.redisPort'')]"
proof -
  consider (routes) "command = ''routes''" | (healthlog) "command = ''healthlog''"
    | (none) "command = ''nodes''" "args = []"
    | (list) "command = ''nodes''" "arg args 0 = Some ''list''"
    | (remove) "command = ''nodes''" "arg args 0 = Some ''remove''"
    using assms(1) unfolding store_command_def by blast
  then show ?thesis
  proof cases
    case routes
    then show ?thesis by (simp add: dispatch_def handlers_unconfigured(1) [OF assms(2)])
  next
    case healthlog
    then show ?thesis by (simp add: dispatch_def handlers_unconfigured(2) [OF assms(2)])
  next
    case none
    then show ?thesis by (simp add: dispatch_def handlers_unconfigured(3) [OF assms(2)] arg_def)
  next
    case list
    then show ?thesis by (simp add: dispatch_def handlers_unconfigured(3) [OF assms(2)])
  next
    case remove
    then show ?thesis by (simp add: dispatch_def handlers_unconfigured(4) [OF assms(2)])
  qed
qed

text \<open>
  C2 (as amended). When the config file is absent or is not valid JSON, startup raises
  nothing and leaves the program unconfigured (\<open>configData\<close> is \<^verbatim>\<open>null\<close>, hydra is not
  initialised). Every store-dependent command then fails when attempted: the connect
  promise is rejected with the \<open>TypeError\<close> of reading \<^verbatim>\<open>redisPort\<close> of \<^verbatim>\<open>null\<close>, before any
  client is created, and the rejection is handled nowhere: the handler prints nothing and
  does not call \<^verbatim>\<open>exitApp()\<close> after it. Before the connect a handler issues nothing, with
  one exception: \<^verbatim>\<open>nodes remove\<close> with a number of arguments other than two has printed
  its arity diagnostic and called \<^verbatim>\<open>exitApp()\<close> by then.
\<close>

theorem unusable_config_store_command:
  assumes "readFile env (js_str (home env) @ ''/.hydra-cli'') = None \<or>
           (\<exists>data. readFile env (js_str (home env) @ ''/.hydra-cli'') = Some data \<and>
                   jsonParse env data = None)"
      and "store_command command args"
  shows "load_config env (constructor\<lparr>hydraConfig := Some (js_str (home env) @ ''/.hydra-cli'')\<rparr>)
           = (constructor\<lparr>hydraConfig := Some (js_str (home env) @ ''/.hydra-cli'')\<rparr>, []) \<and>
         main env (command # args) =
           (if command = ''nodes'' \<and> arg args 0 = Some ''remove'' \<and> length args \<noteq> 2
            then [Log ''Missing parameter id'', ExitApp] else []) @
           [Unhandled (TypeError ''this.configData.redisPort'')]"
proof -
  let ?p = "constructor\<lparr>hydraConfig := Some (js_str (home env) @ ''/.hydra-cli'')\<rparr>"
  have null: "configData ?p = JNull" by (simp add: constructor_def)
  have load: "load_config env ?p = (?p, [])"
    using assms(1) null by (intro load_config_unusable) simp_all
  have "main env (command # args) = dispatch env ?p command args"
    using load by (simp add: main_def)
  with load dispatch_store_command_unconfigured [OF assms(2) null, of env]
  show ?thesis by simp
qed

theorem unusable_config_store_command_witness:
  "main (example_env\<lparr>readFile := (\<lambda>path. Some ''{redisUrl''), jsonParse := (\<lambda>text. None)\<rparr>)
        [''healthlog'', ''auth-service'']
     = [Unhandled (TypeError ''this.configData.redisPort'')]"
  using unusable_config_store_command
          [where env = "example_env\<lparr>readFile := (\<lambda>path. Some ''{redisUrl''), jsonParse := (\<lambda>text. None)\<rparr>"
             and command = "''healthlog''" and args = "[''auth-service'']"]
  by (simp add: store_command_def)

text \<open>
  C2, the claim as stated fails: with the config file missing, \<^verbatim>\<open>nodes\<close> ends on the
  unhandled \<open>TypeError\<close>; no connection is attempted and no error of the store is
  reported.
\<close>

theorem missing_config_counterexample:
  "main example_env [''nodes''] = [Unhandled (TypeError ''this.configData.redisPort'')] \<and>
   \<not> reports_store_error (main example_env [''nodes''])"
proof -
  let ?p = "constructor\<lparr>hydraConfig := Some ''/home/user/.hydra-cli''\<rparr>"
  have null: "configData ?p = JNull" by (simp add: constructor_def)
  have "load_config example_env ?p = (?p, [])"
    using null by (intro load_config_unusable) (simp_all add: example_env_def)
  then have "main example_env [''nodes''] = dispatch example_env ?p ''nodes'' []"
    by (simp add: main_def example_env_def)
  also have "\<dots> = [Unhandled (TypeError ''this.configData.redisPort'')]"
    using dispatch_store_command_unconfigured [OF _ null, of "''nodes''" "[]" example_env]
    by (simp add: store_command_def arg_def)
  finally show ?thesis by (simp add: reports_store_error_def)
qed

subsection \<open>Argument checks\<close>

lemma handleMessageSend_arity:
  assumes "length args \<noteq> 2"
  shows "handleMessageSend env p args = [Log ''Invalid number of parameters'', ExitApp]"
  using assms by (simp add: handleMessageSend_def exitApp_def)

lemma handleNodesRemove_arity:
  assumes "length args \<noteq> 2" and "configured p" and "refused env p = None"
  shows "handleNodesRemove env p args =
           [Log ''Missing parameter id'', ExitApp] @ connected p @
           [HDel ''hydra:service:nodes'' (arg args 1)] @
           (case hdelReply env ''hydra:service:nodes'' (arg args 1) of
              Some err \<Rightarrow> [LogErr err]
            | None \<Rightarrow> [Log (''nodes entry '' @ js_str (arg args 1) @ '' removed'')]) @
           [ExitApp]"
  using assms
  by (simp add: handleNodesRemove_def redisConnect_configured exitApp_def redisPreKey_def)

text \<open>
  C3. \<^verbatim>\<open>nodes remove a b\<close> has three positional arguments. The handler prints its
  diagnostic and calls \<^verbatim>\<open>exitApp()\<close>, and then, the branch having no \<^verbatim>\<open>return\<close>, it
  connects, deletes the field \<^verbatim>\<open>a\<close> and reports the removal: the operation is attempted.
  (\<open>handleMessageSend\<close> does return: see \<open>handleMessageSend_arity\<close>.)
\<close>

theorem handleNodesRemove_wrong_arity_still_deletes:
  "handleNodesRemove example_env example_program [''remove'', ''a'', ''b'']
     = [Log ''Missing parameter id'', ExitApp,
        CreateClient (JStr ''6379'') (JStr ''127.0.0.1''), Select (JStr ''0''),
        HDel ''hydra:service:nodes'' (Some ''a''), Log ''nodes entry a removed'', ExitApp]"
  by (simp add: handleNodesRemove_def redisConnect_def example_program_def example_env_def
        redisPreKey_def arg_def exitApp_def)

text \<open>
  C4. A \<^verbatim>\<open>rest\<close> invocation with a payload argument whose route parses to the method
  \<^verbatim>\<open>get\<close> or \<^verbatim>\<open>delete\<close>, or to no method (then \<^verbatim>\<open>get\<close> is taken), prints one diagnostic
  and calls \<^verbatim>\<open>exitApp()\<close>: the error of the route if it has one, else the refusal of the
  payload. The payload file is not loaded and no request is made.
\<close>

theorem handleRest_rejects_payload:
  assumes "parseRoute env (arg args 0) = Inr route"
      and "length args > 1"
      and "method = (if is_set (httpMethod route) then js_str (httpMethod route) else ''get'')"
      and "method = ''get'' \<or> method = ''delete''"
  shows "handleRest env p args =
           [Log (if is_set (error route) then js_str (error route)
                 else ''Payload not allowed for HTTP '' @ [CHR 0x27] @ method @ [CHR 0x27] @ '' method''),
            ExitApp]"
  using assms by (auto simp: handleRest_def exitApp_def Let_def)

theorem handleRest_rejects_payload_witness:
  "handleRest (example_env\<lparr>parseRoute := (\<lambda>r. Inr \<lparr>error = Some [], httpMethod = Some ''delete''\<rparr>)\<rparr>)
              example_program [''[delete]auth-service:/v1/session'', ''payload.json'']
     = [Log (''Payload not allowed for HTTP '' @ [CHR 0x27] @ ''delete'' @ [CHR 0x27] @ '' method''),
        ExitApp]"
  using handleRest_rejects_payload
          [where env = "example_env\<lparr>parseRoute := (\<lambda>r. Inr \<lparr>error = Some [], httpMethod = Some ''delete''\<rparr>)\<rparr>"
             and args = "[''[delete]auth-service:/v1/session'', ''payload.json'']"
             and route = "\<lparr>error = Some [], httpMethod = Some ''delete''\<rparr>"
             and p = example_program, OF _ _ refl]
  by (simp add: is_set_def)

subsection \<open>The health log\<close>

text \<open>
  C6. With a configuration loaded, when the key enumeration for the service finds no
  instance key, \<^verbatim>\<open>healthlog\<close> connects, enumerates, prints the literal \<^verbatim>\<open>[]\<close> and calls
  \<^verbatim>\<open>exitApp()\<close>; it issues no batch read. (A refused connection ends the run at the
  connect, before any enumeration.)
\<close>

theorem handleHealthLog_no_instances:
  assumes "configured p"
      and "keysReply env (''*:'' @ js_str (arg args 0) @ '':*:health:log'') = Inr []"
  shows "handleHealthLog env p args =
           connected p @
           (case refused env p of
              Some e \<Rightarrow> [Uncaught e]
            | None \<Rightarrow> [Keys (''*:'' @ js_str (arg args 0) @ '':*:health:log''), Log ''[]'', ExitApp])"
  using assms
  by (cases "refused env p")
     (simp_all add: handleHealthLog_def redisConnect_configured getKeys_def exitApp_def)

theorem handleHealthLog_no_instances_witness:
  "handleHealthLog example_env example_program [''auth-service'']
     = [CreateClient (JStr ''6379'') (JStr ''127.0.0.1''), Select (JStr ''0''),
        Keys ''*:auth-service:*:health:log'', Log ''[]'', ExitApp]"
  using handleHealthLog_no_instances
          [where p = example_program and env = example_env and args = "[''auth-service'']"]
  by (simp add: configured_def connected_def refused_def prop_of_def example_program_def
        example_env_def arg_def)

lemma printed_parsed_entries:
  "printed (JArr (map (safeJSONParse env) entries)) =
     JArr (map (\<lambda>entry. case jsonParse env entry of
                          None \<Rightarrow> JNull
                        | Some v \<Rightarrow> (if v = JUndefined then JNull else printed v)) entries)"
proof -
  have *: "printed v = JUndefined \<longleftrightarrow> v = JUndefined" for v
    by (cases v) simp_all
  show ?thesis
    by (simp add: safeJSONParse_def * split: option.split)
qed

text \<open>
  C5 (as amended). With a configuration loaded and at least one instance key found,
  \<^verbatim>\<open>healthlog\<close> reads the batch and prints the array of \<open>safeJSONParse\<close> of the entries of
  the first instance: an entry that parses as JSON is printed as the parsed value, an entry
  that does not parse is \<^verbatim>\<open>undefined\<close> in the array and is printed as \<^verbatim>\<open>null\<close>. (A refused
  connection ends the run at the connect, before any read.)
\<close>

theorem handleHealthLog_entries:
  assumes "configured p"
      and "keysReply env (''*:'' @ js_str (arg args 0) @ '':*:health:log'') = Inr instances"
      and "instances \<noteq> []"
      and "execReply env (map (\<lambda>instance. (instance, 0, 100)) instances) = Inr (Inr entries # others)"
  shows "handleHealthLog env p args =
           connected p @
           (case refused env p of
              Some e \<Rightarrow> [Uncaught e]
            | None \<Rightarrow>
                [Keys (''*:'' @ js_str (arg args 0) @ '':*:health:log''),
                 Exec (map (\<lambda>instance. (instance, 0, 100)) instances),
                 LogJSON (JArr (map (safeJSONParse env) entries)), ExitApp]) \<and>
         printed (JArr (map (safeJSONParse env) entries)) =
           JArr (map (\<lambda>entry. case jsonParse env entry of
                                None \<Rightarrow> JNull
                              | Some v \<Rightarrow> (if v = JUndefined then JNull else printed v)) entries)"
  using assms printed_parsed_entries [of env entries]
  by (cases "refused env p")
     (simp_all add: handleHealthLog_def redisConnect_configured getKeys_def exitApp_def)

theorem handleHealthLog_entries_witness:
  \<open>handleHealthLog
     (example_env\<lparr>keysReply := (\<lambda>pattern. Inr [''hydra:service:auth-service:i1:health:log'']),
                  execReply := (\<lambda>trans. Inr [Inr [''{"a":1}'', ''not-json'']])\<rparr>)
     example_program [''auth-service'']
   = [CreateClient (JStr ''6379'') (JStr ''127.0.0.1''), Select (JStr ''0''),
      Keys ''*:auth-service:*:health:log'',
      Exec [(''hydra:service:auth-service:i1:health:log'', 0, 100)],
      LogJSON (JArr [JObj [(''a'', JNum 1)], JUndefined]), ExitApp]\<close>
  using handleHealthLog_entries
          [where p = example_program
             and env = \<open>example_env\<lparr>keysReply := (\<lambda>pattern. Inr [''hydra:service:auth-service:i1:health:log'']),
                                     execReply := (\<lambda>trans. Inr [Inr [''{"a":1}'', ''not-json'']])\<rparr>\<close>
             and args = "[''auth-service'']"
             and instances = "[''hydra:service:auth-service:i1:health:log'']"
             and entries = \<open>[''{"a":1}'', ''not-json'']\<close> and others = "[]"]
  by (simp add: configured_def connected_def refused_def prop_of_def example_program_def
        example_env_def arg_def safeJSONParse_def example_parse_def)

text \<open>
  C5, the claim as stated fails on its own example: for the entries \<^verbatim>\<open>{"a":1}\<close> and
  \<^verbatim>\<open>not-json\<close> of one instance the array handed to \<^verbatim>\<open>JSON.stringify\<close> holds the parsed
  object and \<^verbatim>\<open>undefined\<close>; it is printed as \<^verbatim>\<open>[{"a":1}, null]\<close>, not with the raw string.
\<close>

theorem healthlog_raw_string_counterexample:
  \<open>handleHealthLog
     (example_env\<lparr>keysReply := (\<lambda>pattern. Inr [''hydra:service:auth-service:i1:health:log'']),
                  execReply := (\<lambda>trans. Inr [Inr [''{"a":1}'', ''not-json'']])\<rparr>)
     example_program [''auth-service'']
   = [CreateClient (JStr ''6379'') (JStr ''127.0.0.1''), Select (JStr ''0''),
      Keys ''*:auth-service:*:health:log'',
      Exec [(''hydra:service:auth-service:i1:health:log'', 0, 100)],
      LogJSON (JArr [JObj [(''a'', JNum 1)], JUndefined]), ExitApp] \<and>
   printed (JArr [JObj [(''a'', JNum 1)], JUndefined]) = JArr [JObj [(''a'', JNum 1)], JNull] \<and>
   printed (JArr [JObj [(''a'', JNum 1)], JUndefined]) \<noteq> JArr [JObj [(''a'', JNum 1)], JStr ''not-json'']\<close>
  by (simp add: handleHealthLog_def redisConnect_def getKeys_def exitApp_def example_program_def
        example_env_def arg_def safeJSONParse_def example_parse_def)

subsection \<open>The node list\<close>

lemma node_selected_filter:
  assumes "service_node item"
  shows "node_selected [c, f] item = Inr (sublist f (serviceName item))"
proof (cases item)
  case (JObj kvs)
  with assms show ?thesis
    by (auto simp: node_selected_def arg_def indexOf_sublist split: option.splits jsval.splits)
qed (use assms in simp_all)

lemma add_elapsed_node:
  assumes "service_node item"
  shows "add_elapsed env item = Inr (with_elapsed env item)"
  using assms by (cases item) (simp_all add: add_elapsed_def prop_of_def)

lemma nodes_loop_filter:
  assumes "\<forall>(entry, val) \<in> set data. service_node (safeJSONParse env val)"
  shows "nodes_loop env [c, f] data nodes =
           Inr (nodes @ map (with_elapsed env)
                          (filter (\<lambda>item. sublist f (serviceName item))
                                  (map (\<lambda>(entry, val). safeJSONParse env val) data)))"
  using assms
proof (induction data arbitrary: nodes)
  case Nil
  then show ?case by simp
next
  case (Cons kv data)
  obtain entry val where kv: "kv = (entry, val)" by (cases kv)
  from Cons.prems kv have node: "service_node (safeJSONParse env val)"
    and rest: "\<forall>(entry, val) \<in> set data. service_node (safeJSONParse env val)"
    by simp_all
  show ?case
    by (simp add: kv node_selected_filter [OF node] add_elapsed_node [OF node] Cons.IH [OF rest])
qed

text \<open>
  C7 (as amended). With a configuration loaded, for every filter string, \<^verbatim>\<open>nodes list filter\<close>
  reads the hash of the nodes. When the client delivers the stored node mapping (each
  value parses to an object whose \<^verbatim>\<open>serviceName\<close> is a string), the handler prints the
  array of exactly the nodes whose \<^verbatim>\<open>serviceName\<close> has the filter as a contiguous,
  case-sensitive substring, in the order of the mapping, each with its \<^verbatim>\<open>elapsed\<close> field:
  every string contains the empty filter, so the empty filter keeps every node, and a
  filter that no name contains leaves the empty array. When no node is stored, the client
  delivers \<^verbatim>\<open>null\<close> and the handler prints nothing before it shuts down. (A refused
  connection ends the run at the connect, before the hash is read.)
\<close>

theorem handleNodesList_filter:
  assumes "configured p"
      and "hgetallReply env ''hydra:service:nodes'' = Inr reply"
      and "\<forall>data \<in> set_option reply. \<forall>(entry, val) \<in> set data. service_node (safeJSONParse env val)"
  shows "handleNodesList env p [''list'', f] =
           connected p @
           (case refused env p of
              Some e \<Rightarrow> [Uncaught e]
            | None \<Rightarrow>
                (case reply of
                   None \<Rightarrow> [HGetAll ''hydra:service:nodes'', ExitApp]
                 | Some data \<Rightarrow>
                     [HGetAll ''hydra:service:nodes'',
                      LogJSON (JArr (map (with_elapsed env)
                                       (filter (\<lambda>item. sublist f (serviceName item))
                                               (map (\<lambda>(entry, val). safeJSONParse env val) data)))),
                      ExitApp]))"
proof (cases reply)
  case None
  with assms(2) show ?thesis
    by (cases "refused env p")
       (simp_all add: handleNodesList_def redisConnect_configured [OF assms(1)] redisPreKey_def
          exitApp_def)
next
  case (Some data)
  with assms(3) have nodes: "\<forall>(entry, val) \<in> set data. service_node (safeJSONParse env val)"
    by simp
  from Some assms(2) show ?thesis
    by (cases "refused env p")
       (simp_all add: handleNodesList_def redisConnect_configured [OF assms(1)] redisPreKey_def
          exitApp_def nodes_loop_filter [OF nodes])
qed

theorem handleNodesList_filter_witness:
  \<open>handleNodesList
     (example_env\<lparr>hgetallReply :=
        (\<lambda>key. Inr (Some [(''i1'', ''{"serviceName":"auth-service"}''), (''i2'', ''{"serviceName":"mail"}'')]))\<rparr>)
     example_program [''list'', ''auth'']
   = [CreateClient (JStr ''6379'') (JStr ''127.0.0.1''), Select (JStr ''0''),
      HGetAll ''hydra:service:nodes'',
      LogJSON (JArr [JObj [(''serviceName'', JStr ''auth-service''), (''elapsed'', JNum 5)]]),
      ExitApp]\<close>
proof -
  have \<open>sublist ''auth'' ''auth-service''\<close>
    using sublist_appendI [of "''auth''" "[]" "''-service''"] by simp
  moreover have \<open>\<not> sublist ''auth'' ''mail''\<close>
    by (simp add: sublist_Cons_right)
  ultimately show ?thesis
    using handleNodesList_filter
          [where p = example_program
             and env = \<open>example_env\<lparr>hgetallReply :=
                (\<lambda>key. Inr (Some [(''i1'', ''{"serviceName":"auth-service"}''), (''i2'', ''{"serviceName":"mail"}'')]))\<rparr>\<close>
             and reply = \<open>Some [(''i1'', ''{"serviceName":"auth-service"}''), (''i2'', ''{"serviceName":"mail"}'')]\<close>
             and f = "''auth''"]
    by (simp add: configured_def connected_def refused_def prop_of_def example_program_def
          example_env_def safeJSONParse_def example_parse_def obj_set_def is_array_index_def
          is_digit_def)
qed

text \<open>
  C7, the claim as stated fails: no node is stored, so the client delivers \<^verbatim>\<open>null\<close> for the
  hash; the filter matches no node, and \<^verbatim>\<open>nodes list auth\<close> prints nothing, not an empty
  array, and shuts down.
\<close>

theorem nodes_list_empty_store_counterexample:
  "hgetallReply example_env ''hydra:service:nodes'' = Inr None \<and>
   handleNodesList example_env example_program [''list'', ''auth'']
     = [CreateClient (JStr ''6379'') (JStr ''127.0.0.1''), Select (JStr ''0''),
        HGetAll ''hydra:service:nodes'', ExitApp]"
  by (simp add: handleNodesList_def redisConnect_def example_program_def example_env_def
        redisPreKey_def exitApp_def)

lemma node_selected_error:
  assumes "node_selected args item = Inl x"
  shows "\<exists>e \<in> dereference_sites. x = TypeError e"
proof -
  have "js_indexOf ''item.serviceName.indexOf'' v a = Inl x \<Longrightarrow> x = TypeError ''item.serviceName.indexOf''"
    for v a by (cases "(''item.serviceName.indexOf'', v, a)" rule: js_indexOf.cases) auto
  moreover have "get_prop ''item.serviceName'' item ''serviceName'' = Inl x \<Longrightarrow> x = TypeError ''item.serviceName''"
    by (cases item) auto
  ultimately show ?thesis
    using assms
    by (auto simp: node_selected_def dereference_sites_def split: if_splits sum.splits)
qed

lemma add_elapsed_error:
  assumes "add_elapsed env item = Inl x"
  shows "\<exists>e \<in> dereference_sites. x = TypeError e"
  using assms
  by (cases item) (auto simp: add_elapsed_def dereference_sites_def)

lemma nodes_loop_throws:
  assumes "length args \<le> 2"
      and "\<exists>(entry, val) \<in> set data. jsonParse env val = None"
  shows "\<exists>e \<in> dereference_sites. nodes_loop env args data nodes = Inl (TypeError e)"
  using assms(2)
proof (induction data arbitrary: nodes)
  case Nil
  then show ?case by simp
next
  case (Cons kv data)
  obtain entry val where kv: "kv = (entry, val)" by (cases kv)
  show ?case
  proof (cases "jsonParse env val = None")
    case True
    then have item: "safeJSONParse env val = JUndefined" by (simp add: safeJSONParse_def)
    consider "length args = 0 \<or> length args = 1" | "length args = 2"
      using assms(1) by linarith
    then show ?thesis
      by cases
        (auto simp: kv item node_selected_def add_elapsed_def dereference_sites_def)
  next
    case False
    with Cons.prems kv have rest: "\<exists>(entry, val) \<in> set data. jsonParse env val = None"
      by auto
    note IH = Cons.IH [OF rest]
    show ?thesis
    proof (cases "node_selected args (safeJSONParse env val)")
      case (Inl x)
      with node_selected_error [OF Inl] show ?thesis by (auto simp: kv)
    next
      case (Inr selected)
      show ?thesis
      proof (cases selected)
        case False
        with Inr IH [of nodes] show ?thesis by (simp add: kv)
      next
        case True
        show ?thesis
        proof (cases "add_elapsed env (safeJSONParse env val)")
          case (Inl x)
          with add_elapsed_error [OF Inl] Inr True show ?thesis by (auto simp: kv)
        next
          case inr: (Inr item')
          with Inr True IH [of "nodes @ [item']"] show ?thesis by (simp add: kv)
        qed
      qed
    qed
  qed
qed

text \<open>
  C10 (as amended). \<open>handleNodesList\<close> dereferences the parsed node value without a null
  check. With a configuration loaded and at most two positional arguments (\<^verbatim>\<open>nodes\<close>,
  \<^verbatim>\<open>nodes list\<close>, \<^verbatim>\<open>nodes list filter\<close>), whenever some field of the stored hash holds a
  value that is not valid JSON, the handler raises a \<open>TypeError\<close> at one of its
  dereferences of \<open>item\<close> (the \<^verbatim>\<open>elapsed\<close> assignment or the \<^verbatim>\<open>serviceName\<close> test): nothing
  is printed, \<^verbatim>\<open>exitApp()\<close> is not called. (A refused connection ends the run at the
  connect, before the hash is read.)
\<close>

theorem handleNodesList_unparsed_value_throws:
  assumes "configured p"
      and "hgetallReply env ''hydra:service:nodes'' = Inr (Some data)"
      and "\<exists>(entry, val) \<in> set data. jsonParse env val = None"
      and "length args \<le> 2"
  shows "\<exists>e \<in> dereference_sites.
           handleNodesList env p args =
             connected p @
             (case refused env p of
                Some r \<Rightarrow> [Uncaught r]
              | None \<Rightarrow> [HGetAll ''hydra:service:nodes'', Uncaught (TypeError e)])"
proof -
  from nodes_loop_throws [OF assms(4,3), of "[]"]
  obtain e where site: "e \<in> dereference_sites"
    and loop: "nodes_loop env args data [] = Inl (TypeError e)"
    by blast
  have "handleNodesList env p args =
          connected p @
          (case refused env p of
             Some r \<Rightarrow> [Uncaught r]
           | None \<Rightarrow> [HGetAll ''hydra:service:nodes'', Uncaught (TypeError e)])"
    using assms(2) loop
    by (cases "refused env p")
       (simp_all add: handleNodesList_def redisConnect_configured [OF assms(1)] redisPreKey_def)
  with site show ?thesis by blast
qed

theorem handleNodesList_unparsed_value_throws_witness:
  "handleNodesList (example_env\<lparr>hgetallReply := (\<lambda>key. Inr (Some [(''i1'', ''not-json'')]))\<rparr>)
                   example_program [''list'']
     = [CreateClient (JStr ''6379'') (JStr ''127.0.0.1''), Select (JStr ''0''),
        HGetAll ''hydra:service:nodes'', Uncaught (TypeError ''item.updatedOn'')]"
  using handleNodesList_unparsed_value_throws
          [where p = example_program
             and env = "example_env\<lparr>hgetallReply := (\<lambda>key. Inr (Some [(''i1'', ''not-json'')]))\<rparr>"
             and data = "[(''i1'', ''not-json'')]" and args = "[''list'']"]
  by (simp add: handleNodesList_def redisConnect_def example_program_def example_env_def
        redisPreKey_def safeJSONParse_def example_parse_def node_selected_def add_elapsed_def)

lemma nodes_loop_extra_args:
  assumes "2 < length args"
  shows "nodes_loop env args data nodes = Inr nodes"
proof -
  have "node_selected args item = Inr False" for item
    using assms by (auto simp: node_selected_def)
  then show ?thesis
    by (induction data arbitrary: nodes) auto
qed

lemma handleNodesList_extra_args:
  assumes "configured p" and "refused env p = None" and "2 < length args"
      and "hgetallReply env ''hydra:service:nodes'' = Inr (Some data)"
  shows "handleNodesList env p args =
           connected p @ [HGetAll ''hydra:service:nodes'', LogJSON (JArr []), ExitApp]"
  using assms(2,4)
  by (simp add: handleNodesList_def redisConnect_configured [OF assms(1)] redisPreKey_def
        exitApp_def nodes_loop_extra_args [OF assms(3)])

text \<open>
  C10, the claim as stated fails: \<^verbatim>\<open>nodes list a b\<close> has three positional arguments, the
  test of the loop is false before \<open>item\<close> is read, and the handler prints the empty array
  and shuts down although the only stored value is not valid JSON.
\<close>

theorem nodes_list_extra_args_counterexample:
  "jsonParse (example_env\<lparr>hgetallReply := (\<lambda>key. Inr (Some [(''i1'', ''not-json'')]))\<rparr>) ''not-json''
     = None \<and>
   handleNodesList (example_env\<lparr>hgetallReply := (\<lambda>key. Inr (Some [(''i1'', ''not-json'')]))\<rparr>)
                   example_program [''list'', ''a'', ''b'']
     = [CreateClient (JStr ''6379'') (JStr ''127.0.0.1''), Select (JStr ''0''),
        HGetAll ''hydra:service:nodes'', LogJSON (JArr []), ExitApp]"
  by (simp add: handleNodesList_def redisConnect_def example_program_def example_env_def
        redisPreKey_def safeJSONParse_def example_parse_def node_selected_def exitApp_def)

subsection \<open>The routes\<close>

lemma service_names_filter:
  assumes "\<forall>key \<in> set keys. 2 < length (split CHR '':'' key)"
  shows "service_names [f] keys acc =
           (acc @ map Some (filter (\<lambda>name. sublist f name) (map (\<lambda>key. split CHR '':'' key ! 2) keys)),
            None)"
  using assms
proof (induction keys arbitrary: acc)
  case Nil
  then show ?case by simp
next
  case (Cons key keys)
  then have seg: "arg (split CHR '':'' key) 2 = Some (split CHR '':'' key ! 2)"
    and rest: "\<forall>key \<in> set keys. 2 < length (split CHR '':'' key)"
    by (simp_all add: arg_def)
  show ?case
    by (simp add: seg Let_def indexOf_sublist Cons.IH [OF rest])
qed

lemma getRoutes_all:
  assumes "redisdb p = Some client"
      and "\<forall>name \<in> set names. smembersReply env (routesKey (Some name)) = Inr (routes name)"
  shows "concat (map snd (map (getRoutes env p) (map Some names))) =
           map (\<lambda>name. SMembers (routesKey (Some name))) names"
    and "promise_all (map fst (map (getRoutes env p) (map Some names))) = Inr (map routes names)"
  using assms by (induction names) (simp_all add: getRoutes_def)

lemma replace_prop_same:
  "replace_prop name (r name) (map (\<lambda>n. (n, r n)) seen) = map (\<lambda>n. (n, r n)) seen"
  by (induction seen) simp_all

lemma assign_routes_first_seen:
  assumes "\<forall>name \<in> set names. plain_key name"
  shows "assign_routes (map (\<lambda>n. (n, JArr (map JStr (routes n)))) seen) (map Some names) (map routes names)
           = map (\<lambda>n. (n, JArr (map JStr (routes n)))) (first_seen seen names)"
  using assms
proof (induction names arbitrary: seen)
  case Nil
  then show ?case by simp
next
  case (Cons name names)
  let ?g = "\<lambda>n. (n, JArr (map JStr (routes n)))"
  from Cons.prems have plain: "plain_key name" and rest: "\<forall>name \<in> set names. plain_key name"
    by simp_all
  have set: "obj_set (map ?g seen) name (JArr (map JStr (routes name))) =
               map ?g (if name \<in> set seen then seen else seen @ [name])"
    using plain replace_prop_same [of name "\<lambda>n. JArr (map JStr (routes n))" seen]
    by (auto simp: obj_set_def plain_key_def image_iff)
  show ?case
    by (simp add: set Cons.IH [OF rest] del: map_append)
qed

text \<open>
  C8 (as amended). With a configuration loaded, for every sequence of discovered route
  keys (each of at least three segments, the third being the service name) and every
  filter, when no selected name is an array index or \<^verbatim>\<open>__proto__\<close> and every read of a
  route set succeeds, \<^verbatim>\<open>routes filter\<close> reads the route set of each key whose name contains
  the filter and prints the object that maps exactly those names, each once, to their
  route sets, its keys in the order of first discovery. (A refused connection ends the
  run at the connect, before any key is discovered.)
\<close>

theorem handleRoutes_filter:
  assumes "configured p"
      and "keysReply env ''*:routes'' = Inr keys"
      and "\<forall>key \<in> set keys. 2 < length (split CHR '':'' key)"
      and "names = filter (\<lambda>name. sublist f name) (map (\<lambda>key. split CHR '':'' key ! 2) keys)"
      and "\<forall>name \<in> set names. plain_key name"
      and "\<forall>name \<in> set names. smembersReply env (routesKey (Some name)) = Inr (routes name)"
  shows "handleRoutes env p [f] =
           connected p @
           (case refused env p of
              Some e \<Rightarrow> [Uncaught e]
            | None \<Rightarrow>
                [Keys ''*:routes''] @
                map (\<lambda>name. SMembers (routesKey (Some name))) names @
                [LogJSON (JObj (map (\<lambda>name. (name, JArr (map JStr (routes name))))
                                  (first_seen [] names))),
                 ExitApp])"
proof -
  let ?p = "p\<lparr>redisdb := Some (prop_of (configData p) ''redisPort'', prop_of (configData p) ''redisUrl'')\<rparr>"
  have db: "redisdb ?p = Some (prop_of (configData p) ''redisPort'', prop_of (configData p) ''redisUrl'')"
    by simp
  have sel: "service_names [f] keys [] = (map Some names, None)"
    using service_names_filter [OF assms(3), of f "[]"] assms(4) by simp
  have obj: "assign_routes [] (map Some names) (map routes names)
               = map (\<lambda>name. (name, JArr (map JStr (routes name)))) (first_seen [] names)"
    using assign_routes_first_seen [OF assms(5), of routes "[]"] by simp
  show ?thesis
    using assms(2)
    by (cases "refused env p")
       (simp_all add: handleRoutes_def redisConnect_configured [OF assms(1)] getKeys_def sel
          getRoutes_all [OF db assms(6)] obj exitApp_def del: map_map)
qed

theorem handleRoutes_filter_witness:
  "handleRoutes
     (example_env\<lparr>keysReply := (\<lambda>pattern. Inr [''hydra:service:auth-service:service:routes'',
                                              ''hydra:service:mail:service:routes'',
                                              ''hydra:service:billing:service:routes'']),
                  smembersReply := (\<lambda>key. Inr [''[get]/v1/'' @ key])\<rparr>)
     example_program [''mail'']
   = [CreateClient (JStr ''6379'') (JStr ''127.0.0.1''), Select (JStr ''0''), Keys ''*:routes'',
      SMembers ''hydra:service:mail:service:routes'',
      LogJSON (JObj [(''mail'', JArr [JStr ''[get]/v1/hydra:service:mail:service:routes''])]),
      ExitApp]"
proof -
  have names: "[''mail''] =
      filter (\<lambda>name. sublist ''mail'' name)
        (map (\<lambda>key. split CHR '':'' key ! 2)
           [''hydra:service:auth-service:service:routes'', ''hydra:service:mail:service:routes'',
            ''hydra:service:billing:service:routes''])"
    by (simp add: indexOf_sublist [symmetric] Let_def)
  show ?thesis
    using handleRoutes_filter
          [where p = example_program
             and env = "example_env\<lparr>keysReply := (\<lambda>pattern. Inr [''hydra:service:auth-service:service:routes'',
                                              ''hydra:service:mail:service:routes'',
                                              ''hydra:service:billing:service:routes'']),
                  smembersReply := (\<lambda>key. Inr [''[get]/v1/'' @ key])\<rparr>"
             and keys = "[''hydra:service:auth-service:service:routes'', ''hydra:service:mail:service:routes'',
                          ''hydra:service:billing:service:routes'']"
             and f = "''mail''" and names = "[''mail'']"
             and routes = "\<lambda>name. [''[get]/v1/'' @ routesKey (Some name)]", OF _ _ _ names]
    by (simp add: configured_def connected_def refused_def prop_of_def example_program_def
          example_env_def plain_key_def is_array_index_def is_digit_def routesKey_def redisPreKey_def)
qed

text \<open>
  C8, the claim as stated fails: the keys of the services \<^verbatim>\<open>b1\<close> and \<^verbatim>\<open>1\<close> are discovered
  in this order and both names contain the filter \<^verbatim>\<open>1\<close>; the name \<^verbatim>\<open>1\<close> is an array index,
  so the object lists it first.
\<close>

theorem routes_key_order_counterexample:
  "handleRoutes
     (example_env\<lparr>keysReply := (\<lambda>pattern. Inr [''hydra:service:b1:service:routes'',
                                              ''hydra:service:1:service:routes'']),
                  smembersReply := (\<lambda>key. Inr [''[get]/v1/'' @ key])\<rparr>)
     example_program [''1'']
   = [CreateClient (JStr ''6379'') (JStr ''127.0.0.1''), Select (JStr ''0''), Keys ''*:routes'',
      SMembers ''hydra:service:b1:service:routes'', SMembers ''hydra:service:1:service:routes'',
      LogJSON (JObj [(''1'', JArr [JStr ''[get]/v1/hydra:service:1:service:routes'']),
                     (''b1'', JArr [JStr ''[get]/v1/hydra:service:b1:service:routes''])]),
      ExitApp]"
  by (simp add: handleRoutes_def redisConnect_def getKeys_def getRoutes_def example_program_def
        example_env_def arg_def Let_def routesKey_def redisPreKey_def obj_set_def
        is_array_index_def is_digit_def decimal_def digit_val_def exitApp_def)

end
